theory Spec2Isabelle
  imports Complex_Main
begin

section \<open>Values shared by the embedding modules\<close>

text \<open>
  JavaScript numbers are modelled as real numbers: arithmetic is exact, and the
  rounding, overflow and NaN of IEEE-754 doubles are outside the model.  A value that
  the code throws is either an \<open>Error\<close> object (with its message) or some other
  value (with its \<open>String(...)\<close> rendering).  An \<open>async\<close> function returns a
  promise: a settled promise is \<open>Some (Resolved v)\<close> or \<open>Some (Rejected e)\<close>, and
  a promise that never settles is \<open>None\<close>.  All calls run one after the other; no
  two flows interleave.
\<close>

datatype thrown = ErrorObj string | NonError string

datatype 'a settled = Resolved 'a | Rejected thrown

type_synonym vec = "real list"

type_synonym EmbeddingPipeline = "string \<Rightarrow> vec settled"

definition MODEL_NAME :: string where
  "MODEL_NAME = ''Xenova/all-MiniLM-L6-v2''"

definition MODEL_DIMENSIONS :: nat where
  "MODEL_DIMENSIONS = 384"

section \<open>model-loader.ts\<close>

text \<open>The three module variables of the loader.\<close>

record loader =
  embeddingPipeline :: "EmbeddingPipeline option"
  isLoading :: bool
  loadError :: "thrown option"

text \<open>
  What the world answers during one call of \<open>getEmbeddingPipeline\<close>: whether
  \<open>fs.mkdirSync\<close> inside \<open>ensureModelCacheDir\<close> throws, and how the library call
  \<open>pipeline('feature-extraction', MODEL_NAME, ...)\<close> settles.  The optional progress
  observer is taken to return normally; its notifications are not recorded here.
\<close>

record load_env =
  ensureModelCacheDir :: "thrown option"
  pipeline :: "EmbeddingPipeline settled"

fun toError :: "thrown \<Rightarrow> thrown" where
  "toError (ErrorObj m) = ErrorObj m"
| "toError (NonError s) = ErrorObj s"

text \<open>
  \<open>getEmbeddingPipeline\<close>.  While \<open>isLoading\<close> is set and neither a pipeline nor
  an error is stored, the returned promise polls the module variables every 100 ms; with
  no other flow to change them it never settles (\<open>None\<close>).
\<close>

definition getEmbeddingPipeline ::
  "loader \<Rightarrow> load_env \<Rightarrow> (EmbeddingPipeline settled \<times> loader) option" where
  "getEmbeddingPipeline s env =
     (case embeddingPipeline s of
        Some p \<Rightarrow> Some (Resolved p, s)
      | None \<Rightarrow>
         (case loadError s of
            Some e \<Rightarrow> Some (Rejected e, s)
          | None \<Rightarrow>
             if isLoading s then None
             else
               (let s1 = s\<lparr>isLoading := True\<rparr> in
                case ensureModelCacheDir env of
                  Some e \<Rightarrow> Some (Rejected e, s1)
                | None \<Rightarrow>
                   (case pipeline env of
                      Resolved p \<Rightarrow>
                        Some (Resolved p, s1\<lparr>embeddingPipeline := Some p, isLoading := False\<rparr>)
                    | Rejected error \<Rightarrow>
                        Some (Rejected (toError error),
                              s1\<lparr>loadError := Some (toError error), isLoading := False\<rparr>)))))"

definition isModelLoaded :: "loader \<Rightarrow> bool" where
  "isModelLoaded s = (embeddingPipeline s \<noteq> None)"


section \<open>generator.ts\<close>

record BatchProgress =
  current :: int
  total_bp :: int
  percentage :: int

text \<open>\<open>Math.round\<close>: the nearest integer, a tie going up.\<close>

definition js_round :: "real \<Rightarrow> int" where
  "js_round x = \<lfloor>x + 1 / 2\<rfloor>"

text \<open>\<open>Array.prototype.slice(start, end)\<close> on integer arguments; a negative index counts from the end.\<close>

definition js_slice :: "'a list \<Rightarrow> int \<Rightarrow> int \<Rightarrow> 'a list" where
  "js_slice xs start end' =
     (let len = int (length xs);
          k = (if start < 0 then max (len + start) 0 else min start len);
          final = (if end' < 0 then max (len + end') 0 else min end' len)
      in take (nat (final - k)) (drop (nat k) xs))"

text \<open>
  \<open>String.prototype.trim\<close>, on strings of 8-bit characters: the white space is tab,
  line feed, vertical tab, form feed, carriage return, space and no-break space.
\<close>

definition js_whitespace :: "char \<Rightarrow> bool" where
  "js_whitespace c = (of_char c \<in> {9, 10, 11, 12, 13, 32, 160 :: nat})"

definition js_trim :: "string \<Rightarrow> string" where
  "js_trim s = rev (dropWhile js_whitespace (rev (dropWhile js_whitespace s)))"

text \<open>The test \<open>!text || text.trim().length === 0\<close>.\<close>

definition emptyText :: "string \<Rightarrow> bool" where
  "emptyText text = (text = [] \<or> length (js_trim text) = 0)"

definition zeroVector :: vec where
  "zeroVector = replicate MODEL_DIMENSIONS 0"

definition magnitude :: "vec \<Rightarrow> real" where
  "magnitude vector = sqrt (foldl (\<lambda>sum val. sum + val * val) 0 vector)"

definition normalizeVector :: "vec \<Rightarrow> vec" where
  "normalizeVector vector =
     (if magnitude vector = 0 then vector
      else map (\<lambda>val. val / magnitude vector) vector)"

text \<open>\<open>options?.normalize !== false\<close>.\<close>

definition normalizeRequested :: "bool option \<Rightarrow> bool" where
  "normalizeRequested normalize_opt = (normalize_opt \<noteq> Some False)"

definition generateEmbedding ::
  "loader \<Rightarrow> load_env \<Rightarrow> string \<Rightarrow> bool option \<Rightarrow> (vec settled \<times> loader) option" where
  "generateEmbedding s env text normalize_opt =
     (if emptyText text then Some (Resolved zeroVector, s)
      else
        (case getEmbeddingPipeline s env of
           None \<Rightarrow> None
         | Some (Rejected e, s') \<Rightarrow> Some (Rejected e, s')
         | Some (Resolved p, s') \<Rightarrow>
            (case p text of
               Rejected e \<Rightarrow> Some (Rejected e, s')
             | Resolved embedding \<Rightarrow>
                 if normalizeRequested normalize_opt
                 then Some (Resolved (normalizeVector embedding), s')
                 else Some (Resolved embedding, s'))))"

text \<open>
  The progress callback is an observer: a call \<open>onProgress(progress)\<close> appends what
  the callback makes of \<open>progress\<close> to the list of observations, and returns normally.
\<close>

definition reportProgress ::
  "(BatchProgress \<Rightarrow> 'e) option \<Rightarrow> int \<Rightarrow> int \<Rightarrow> 'e list \<Rightarrow> 'e list" where
  "reportProgress onProgress totalN globalIndex seen =
     (case onProgress of
        None \<Rightarrow> seen
      | Some cb \<Rightarrow>
          seen @ [cb \<lparr>current = globalIndex + 1, total_bp = totalN,
                     percentage = js_round (real_of_int (globalIndex + 1) / real_of_int totalN * 100)\<rparr>])"

text \<open>
  The inner loop of \<open>generateEmbeddings\<close> over one batch; the list argument is
  \<open>batch[j..]\<close>.  A rejected model call leaves the loop with the thrown value.
\<close>

fun processBatch ::
  "EmbeddingPipeline \<Rightarrow> bool option \<Rightarrow> (BatchProgress \<Rightarrow> 'e) option \<Rightarrow> int \<Rightarrow> int \<Rightarrow>
   string list \<Rightarrow> int \<Rightarrow> vec list \<times> 'e list \<Rightarrow> thrown option \<times> vec list \<times> 'e list" where
  "processBatch p normalize_opt onProgress totalN i [] j (results, seen) = (None, results, seen)"
| "processBatch p normalize_opt onProgress totalN i (text # batch) j (results, seen) =
     (let globalIndex = i + j in
      if emptyText text then
        processBatch p normalize_opt onProgress totalN i batch (j + 1)
          (results @ [zeroVector], reportProgress onProgress totalN globalIndex seen)
      else
        (case p text of
           Rejected e \<Rightarrow> (Some e, results, seen)
         | Resolved embedding \<Rightarrow>
             processBatch p normalize_opt onProgress totalN i batch (j + 1)
               (results @ [if normalizeRequested normalize_opt then normalizeVector embedding
                           else embedding],
                reportProgress onProgress totalN globalIndex seen)))"

text \<open>
  The outer loop \<open>for (let i = 0; i < texts.length; i += batchSize)\<close>.  Nothing in the
  source bounds the number of its iterations, so it is a partial function: \<open>None\<close> is
  the loop that runs forever.
\<close>

partial_function (option) batchLoop ::
  "EmbeddingPipeline \<Rightarrow> bool option \<Rightarrow> (BatchProgress \<Rightarrow> 'e) option \<Rightarrow> string list \<Rightarrow> int \<Rightarrow>
   int \<Rightarrow> vec list \<times> 'e list \<Rightarrow> (thrown option \<times> vec list \<times> 'e list) option" where
  "batchLoop p normalize_opt onProgress texts batchSize i acc =
     (if i < int (length texts) then
        (case processBatch p normalize_opt onProgress (int (length texts)) i
                (js_slice texts i (i + batchSize)) 0 acc of
           (Some e, acc') \<Rightarrow> Some (Some e, acc')
         | (None, acc') \<Rightarrow> batchLoop p normalize_opt onProgress texts batchSize (i + batchSize) acc')
      else Some (None, acc))"

text \<open>
  \<open>generateEmbeddings\<close>; \<open>batchSize\<close> is an integer when given (\<open>?? 32\<close> otherwise).
  The result is the settled promise, what the observer has seen and the loader's variables.
\<close>

definition generateEmbeddings ::
  "loader \<Rightarrow> load_env \<Rightarrow> string list \<Rightarrow> int option \<Rightarrow> bool option \<Rightarrow>
   (BatchProgress \<Rightarrow> 'e) option \<Rightarrow> (vec list settled \<times> 'e list \<times> loader) option" where
  "generateEmbeddings s env texts batchSize_opt normalize_opt onProgress =
     (if length texts = 0 then Some (Resolved [], [], s)
      else
        (let batchSize = (case batchSize_opt of None \<Rightarrow> 32 | Some b \<Rightarrow> b) in
         case getEmbeddingPipeline s env of
           None \<Rightarrow> None
         | Some (Rejected e, s') \<Rightarrow> Some (Rejected e, [], s')
         | Some (Resolved p, s') \<Rightarrow>
            (case batchLoop p normalize_opt onProgress texts batchSize 0 ([], []) of
               None \<Rightarrow> None
             | Some (Some e, results, seen) \<Rightarrow> Some (Rejected e, seen, s')
             | Some (None, results, seen) \<Rightarrow> Some (Resolved results, seen, s'))))"

text \<open>\<open>cosineSimilarity\<close>: the loop over \<open>i < a.length\<close> keeps the three sums.\<close>

fun cosineLoop :: "vec \<Rightarrow> vec \<Rightarrow> nat \<Rightarrow> nat \<Rightarrow> real \<times> real \<times> real \<Rightarrow> real \<times> real \<times> real" where
  "cosineLoop a b i 0 acc = acc"
| "cosineLoop a b i (Suc n) (dotProduct, normA, normB) =
     cosineLoop a b (i + 1) n
       (dotProduct + a ! i * b ! i, normA + a ! i * a ! i, normB + b ! i * b ! i)"

definition cosineSimilarity :: "vec \<Rightarrow> vec \<Rightarrow> thrown + real" where
  "cosineSimilarity a b =
     (if length a \<noteq> length b then Inl (ErrorObj ''Embeddings must have same dimensions'')
      else
        (case cosineLoop a b 0 (length a) (0, 0, 0) of
           (dotProduct, normA, normB) \<Rightarrow>
             (let magnitude = sqrt normA * sqrt normB in
              if magnitude = 0 then Inr 0 else Inr (dotProduct / magnitude))))"

definition getEmbeddingDimensions :: nat where
  "getEmbeddingDimensions = MODEL_DIMENSIONS"

section \<open>cache.ts\<close>

text \<open>
  A row of the table \<open>aios_embedding_cache\<close>.  The BLOB is kept as the sequence of
  32-bit floats it holds.  The table is the list of its rows; \<open>content_hash\<close> is
  declared \<open>PRIMARY KEY\<close>.
\<close>

record cache_row =
  content_hash :: string
  embedding :: vec
  model_version :: string
  dimensions :: nat
  created_at :: string

text \<open>
  The database handle's table together with the two module counters.
\<close>

record cache_world =
  cache_table :: "cache_row list"
  cacheHits :: nat
  cacheMisses :: nat

text \<open>
  Two functions of the platform that the cache calls: the SHA-256 digest in hexadecimal
  (\<open>crypto.createHash('sha256').update(content).digest('hex')\<close>) and the conversion
  of a number to 32-bit precision done by \<open>new Float32Array(...)\<close>.
\<close>

record cache_env =
  sha256_hex :: "string \<Rightarrow> string"
  toFloat32 :: "real \<Rightarrow> real"

record CacheStats =
  hits :: nat
  misses :: nat
  hitRate :: real
  totalEntries :: nat
  modelVersion :: string

definition hashContent :: "cache_env \<Rightarrow> string \<Rightarrow> string" where
  "hashContent cenv content = sha256_hex cenv content"

definition primary_key_ok :: "cache_row list \<Rightarrow> bool" where
  "primary_key_ok rows = distinct (map content_hash rows)"

text \<open>
  \<open>getCachedEmbedding\<close>.  \<open>new Float32Array(buffer, byteOffset, row.dimensions)\<close>
  reads \<open>dimensions\<close> floats of the BLOB and throws a \<open>RangeError\<close> when the BLOB
  holds fewer; the hit has been counted by then.
\<close>

definition getCachedEmbedding ::
  "cache_env \<Rightarrow> cache_world \<Rightarrow> string \<Rightarrow> (thrown + vec option) \<times> cache_world" where
  "getCachedEmbedding cenv cw content =
     (let hash = hashContent cenv content in
      case find (\<lambda>r. content_hash r = hash \<and> model_version r = MODEL_NAME) (cache_table cw) of
        Some row \<Rightarrow>
          (let cw' = cw\<lparr>cacheHits := cacheHits cw + 1\<rparr> in
           if dimensions row \<le> length (embedding row)
           then (Inr (Some (take (dimensions row) (embedding row))), cw')
           else (Inl (ErrorObj ''RangeError: Invalid typed array length''), cw'))
      | None \<Rightarrow> (Inr None, cw\<lparr>cacheMisses := cacheMisses cw + 1\<rparr>))"

text \<open>
  \<open>cacheEmbedding\<close>: \<open>INSERT OR REPLACE\<close> removes the row that holds the same
  primary key, then inserts; \<open>now\<close> is what \<open>datetime('now')\<close> gives.
\<close>

definition cacheEmbedding ::
  "cache_env \<Rightarrow> cache_world \<Rightarrow> string \<Rightarrow> vec \<Rightarrow> string \<Rightarrow> cache_world" where
  "cacheEmbedding cenv cw content embedding_v now =
     (let hash = hashContent cenv content in
      cw\<lparr>cache_table :=
           filter (\<lambda>r. content_hash r \<noteq> hash) (cache_table cw) @
           [\<lparr>content_hash = hash, embedding = map (toFloat32 cenv) embedding_v,
             model_version = MODEL_NAME, dimensions = MODEL_DIMENSIONS, created_at = now\<rparr>]\<rparr>)"

definition getCacheStats :: "cache_world \<Rightarrow> CacheStats" where
  "getCacheStats cw =
     (let count = length (filter (\<lambda>r. model_version r = MODEL_NAME) (cache_table cw));
          totalRequests = cacheHits cw + cacheMisses cw;
          hitRate = (if totalRequests > 0 then real (cacheHits cw) / real totalRequests else 0)
      in \<lparr>hits = cacheHits cw, misses = cacheMisses cw, hitRate = hitRate,
          totalEntries = count, modelVersion = MODEL_NAME\<rparr>)"

definition resetCacheStats :: "cache_world \<Rightarrow> cache_world" where
  "resetCacheStats cw = cw\<lparr>cacheHits := 0, cacheMisses := 0\<rparr>"

text \<open>\<open>clearCache\<close> returns \<open>result.changes\<close>, the number of rows the statement deleted.\<close>

definition clearCache :: "cache_world \<Rightarrow> nat \<times> cache_world" where
  "clearCache cw =
     (let changes = length (filter (\<lambda>r. model_version r = MODEL_NAME) (cache_table cw));
          cw' = cw\<lparr>cache_table := filter (\<lambda>r. \<not> model_version r = MODEL_NAME) (cache_table cw)\<rparr>
      in (changes, resetCacheStats cw'))"

definition clearOldCache :: "cache_world \<Rightarrow> nat \<times> cache_world" where
  "clearOldCache cw =
     (let changes = length (filter (\<lambda>r. model_version r \<noteq> MODEL_NAME) (cache_table cw))
      in (changes, cw\<lparr>cache_table := filter (\<lambda>r. \<not> model_version r \<noteq> MODEL_NAME) (cache_table cw)\<rparr>))"

definition invalidateCacheEntry :: "cache_env \<Rightarrow> cache_world \<Rightarrow> string \<Rightarrow> bool \<times> cache_world" where
  "invalidateCacheEntry cenv cw content =
     (let hash = hashContent cenv content;
          changes = length (filter (\<lambda>r. content_hash r = hash) (cache_table cw))
      in (changes > 0, cw\<lparr>cache_table := filter (\<lambda>r. \<not> content_hash r = hash) (cache_table cw)\<rparr>))"

section \<open>cached-generator.ts\<close>

text \<open>\<open>const { useCache = true } = options\<close>.\<close>

definition useCacheOf :: "bool option \<Rightarrow> bool" where
  "useCacheOf useCache_opt = (case useCache_opt of None \<Rightarrow> True | Some b \<Rightarrow> b)"

definition generateEmbeddingCached ::
  "loader \<Rightarrow> load_env \<Rightarrow> cache_env \<Rightarrow> cache_world \<Rightarrow> string \<Rightarrow> bool option \<Rightarrow> bool option \<Rightarrow>
   string \<Rightarrow> (vec settled \<times> cache_world \<times> loader) option" where
  "generateEmbeddingCached s env cenv cw text useCache_opt normalize_opt now =
     (let useCache = useCacheOf useCache_opt in
      case (if useCache then getCachedEmbedding cenv cw text else (Inr None, cw)) of
        (Inl e, cw1) \<Rightarrow> Some (Rejected e, cw1, s)
      | (Inr (Some cached), cw1) \<Rightarrow> Some (Resolved cached, cw1, s)
      | (Inr None, cw1) \<Rightarrow>
         (case generateEmbedding s env text normalize_opt of
            None \<Rightarrow> None
          | Some (Rejected e, s') \<Rightarrow> Some (Rejected e, cw1, s')
          | Some (Resolved embedding_v, s') \<Rightarrow>
              Some (Resolved embedding_v,
                    (if useCache then cacheEmbedding cenv cw1 text embedding_v now else cw1), s')))"

text \<open>
  The array \<open>results\<close> is filled by index assignment, so it may have holes: a slot
  is \<open>None\<close> while it is a hole or holds \<open>undefined\<close>.  An assignment past the end
  extends the array.
\<close>

definition js_set :: "'a option list \<Rightarrow> nat \<Rightarrow> 'a option \<Rightarrow> 'a option list" where
  "js_set xs i v =
     (if i < length xs then xs[i := v] else xs @ replicate (i - length xs) None @ [v])"

text \<open>\<open>xs[i]\<close>, which is \<open>undefined\<close> past the end.\<close>

definition js_get :: "'a list \<Rightarrow> nat \<Rightarrow> 'a option" where
  "js_get xs i = (if i < length xs then Some (xs ! i) else None)"

text \<open>The first loop of \<open>generateEmbeddingsCached\<close>; the list argument is \<open>texts[i..]\<close>.\<close>

fun probeLoop ::
  "cache_env \<Rightarrow> bool \<Rightarrow> string list \<Rightarrow> nat \<Rightarrow> cache_world \<Rightarrow> vec option list \<Rightarrow> (nat \<times> string) list \<Rightarrow>
   thrown option \<times> cache_world \<times> vec option list \<times> (nat \<times> string) list" where
  "probeLoop cenv useCache [] i cw results textsToGenerate = (None, cw, results, textsToGenerate)"
| "probeLoop cenv useCache (text # rest) i cw results textsToGenerate =
     (if useCache then
        (case getCachedEmbedding cenv cw text of
           (Inl e, cw') \<Rightarrow> (Some e, cw', results, textsToGenerate)
         | (Inr (Some cached), cw') \<Rightarrow>
             probeLoop cenv useCache rest (i + 1) cw' (js_set results i (Some cached)) textsToGenerate
         | (Inr None, cw') \<Rightarrow>
             probeLoop cenv useCache rest (i + 1) cw' results (textsToGenerate @ [(i, text)]))
      else probeLoop cenv useCache rest (i + 1) cw results (textsToGenerate @ [(i, text)]))"

text \<open>
  The second loop; the list argument is \<open>textsToGenerate[i..]\<close>, and \<open>now i\<close> is
  the clock at the \<open>i\<close>-th store.  \<open>new Float32Array(undefined)\<close> is empty.
\<close>

fun storeLoop ::
  "cache_env \<Rightarrow> bool \<Rightarrow> (nat \<Rightarrow> string) \<Rightarrow> vec list \<Rightarrow> (nat \<times> string) list \<Rightarrow> nat \<Rightarrow>
   vec option list \<times> cache_world \<Rightarrow> vec option list \<times> cache_world" where
  "storeLoop cenv useCache now generated [] i (results, cw) = (results, cw)"
| "storeLoop cenv useCache now generated ((index, text) # rest) i (results, cw) =
     (let embedding_v = js_get generated i in
      storeLoop cenv useCache now generated rest (i + 1)
        (js_set results index embedding_v,
         (if useCache
          then cacheEmbedding cenv cw text (case embedding_v of None \<Rightarrow> [] | Some v \<Rightarrow> v) (now i)
          else cw)))"

text \<open>The callback that \<open>generateEmbeddingsCached\<close> hands to \<open>generateEmbeddings\<close>.\<close>

definition adjustProgress ::
  "nat \<Rightarrow> nat \<Rightarrow> (BatchProgress \<Rightarrow> 'e) option \<Rightarrow> (BatchProgress \<Rightarrow> 'e) option" where
  "adjustProgress textsLength toGenerateLength onProgress =
     (case onProgress of
        None \<Rightarrow> None
      | Some cb \<Rightarrow>
          Some (\<lambda>progress.
            (let adjustedTotal = int textsLength;
                 cachedCount = int textsLength - int toGenerateLength;
                 adjustedCurrent = cachedCount + current progress
             in cb \<lparr>current = adjustedCurrent, total_bp = adjustedTotal,
                     percentage =
                       js_round (real_of_int adjustedCurrent / real_of_int adjustedTotal * 100)\<rparr>)))"

definition generateEmbeddingsCached ::
  "loader \<Rightarrow> load_env \<Rightarrow> cache_env \<Rightarrow> cache_world \<Rightarrow> string list \<Rightarrow> bool option \<Rightarrow> bool option \<Rightarrow>
   int option \<Rightarrow> (BatchProgress \<Rightarrow> 'e) option \<Rightarrow> (nat \<Rightarrow> string) \<Rightarrow>
   (vec option list settled \<times> 'e list \<times> cache_world \<times> loader) option" where
  "generateEmbeddingsCached s env cenv cw texts useCache_opt normalize_opt batchSize_opt onProgress now =
     (let useCache = useCacheOf useCache_opt in
      if length texts = 0 then Some (Resolved [], [], cw, s)
      else
        (case probeLoop cenv useCache texts 0 cw [] [] of
           (Some e, cw1, results, textsToGenerate) \<Rightarrow> Some (Rejected e, [], cw1, s)
         | (None, cw1, results, textsToGenerate) \<Rightarrow>
             if length textsToGenerate > 0 then
               (case generateEmbeddings s env (map snd textsToGenerate) batchSize_opt normalize_opt
                       (adjustProgress (length texts) (length textsToGenerate) onProgress) of
                  None \<Rightarrow> None
                | Some (Rejected e, seen, s') \<Rightarrow> Some (Rejected e, seen, cw1, s')
                | Some (Resolved generated, seen, s') \<Rightarrow>
                    (case storeLoop cenv useCache now generated textsToGenerate 0 (results, cw1) of
                       (results', cw2) \<Rightarrow> Some (Resolved results', seen, cw2, s')))
             else Some (Resolved results, [], cw1, s)))"

definition getEmbeddingCacheStats :: "cache_world \<Rightarrow> CacheStats" where
  "getEmbeddingCacheStats cw = getCacheStats cw"

section \<open>Notions used in the statements\<close>




section \<open>Properties of the model loader\<close>



section \<open>Properties of the vector operations\<close>

lemma foldl_squares: "foldl (\<lambda>sum val. sum + val * val) a v = a + (\<Sum>x\<leftarrow>v. x * x)"
  by (induction v arbitrary: a) (simp_all add: add.assoc)

lemma sum_squares_nonneg: "0 \<le> (\<Sum>x\<leftarrow>v. x * x :: real)"
  by (induction v) simp_all

lemma sum_squares_zero_iff: "((\<Sum>x\<leftarrow>v. x * x :: real) = 0) = (\<forall>x\<in>set v. x = 0)"
proof (induction v)
  case Nil
  show ?case by simp
next
  case (Cons a v)
  have "0 \<le> a * a" by simp
  with Cons sum_squares_nonneg [of v] show ?case
    by (auto simp: add_nonneg_eq_0_iff)
qed

lemma magnitude_eq: "magnitude v = sqrt (\<Sum>x\<leftarrow>v. x * x)"
  by (simp add: magnitude_def foldl_squares)

lemma magnitude_zero_iff: "(magnitude v = 0) = (\<forall>x\<in>set v. x = 0)"
  by (simp add: magnitude_eq sum_squares_zero_iff)

lemma sum_squares_scaled:
  "(\<Sum>x\<leftarrow>v. x * x / (m * m)) = (\<Sum>x\<leftarrow>v. x * x) / (m * m :: real)"
  by (induction v) (simp_all add: add_divide_distrib)

lemma magnitude_normalized:
  assumes "magnitude v \<noteq> 0"
  shows "magnitude (map (\<lambda>val. val / magnitude v) v) = 1"
proof -
  let ?S = "\<Sum>x\<leftarrow>v. x * x"
  have pos: "0 < ?S"
    using assms sum_squares_nonneg [of v] by (auto simp: magnitude_eq less_le)
  have "magnitude (map (\<lambda>val. val / magnitude v) v) = sqrt (?S / (magnitude v * magnitude v))"
    by (simp add: magnitude_eq [of "map _ _"] comp_def sum_squares_scaled)
  also have "magnitude v * magnitude v = ?S"
    using pos by (simp add: magnitude_eq)
  also have "sqrt (?S / ?S) = 1"
    using pos by simp
  finally show ?thesis .
qed

lemma sqrt_25: "sqrt 25 = 5"
  using real_sqrt_abs [of 5] by simp

text \<open>
  Claim C6.  \<open>normalizeVector\<close> is a total function with no error result.  A vector
  has magnitude zero exactly when all its components are zero, and it is then returned as
  it is; otherwise every component is divided by the (nonzero) magnitude and the result has
  magnitude one.  \<open>generateEmbedding\<close> on a text that is not empty returns the model's
  vector normalised, unless \<open>normalize\<close> is \<open>false\<close>, when it returns the vector
  as the model gave it.
\<close>

theorem normalizeVector_unit_or_unchanged:
  "(magnitude v = 0) = (\<forall>x\<in>set v. x = 0) \<and>
   (magnitude v = 0 \<longrightarrow> normalizeVector v = v) \<and>
   (magnitude v \<noteq> 0 \<longrightarrow> normalizeVector v = map (\<lambda>val. val / magnitude v) v \<and>
       magnitude (normalizeVector v) = 1) \<and>
   length (normalizeVector v) = length v \<and>
   (\<not> emptyText text \<and> getEmbeddingPipeline s env = Some (Resolved p, s') \<and> p text = Resolved v \<longrightarrow>
      generateEmbedding s env text normalize_opt =
        Some (Resolved (if normalize_opt = Some False then v else normalizeVector v), s'))"
  by (simp add: normalizeVector_def magnitude_normalized magnitude_zero_iff generateEmbedding_def
      normalizeRequested_def)

theorem normalizeVector_unit_or_unchanged_witness:
  "magnitude [3, 4] = 5 \<and> normalizeVector [3, 4] = [3 / 5, 4 / 5] \<and>
   magnitude (normalizeVector [3, 4]) = 1 \<and>
   generateEmbedding \<lparr>embeddingPipeline = Some (\<lambda>t. Resolved [3, 4]), isLoading = False, loadError = None\<rparr>
     \<lparr>ensureModelCacheDir = None, pipeline = Rejected (NonError ''unused'')\<rparr> ''hi'' None
     = Some (Resolved [3 / 5, 4 / 5],
        \<lparr>embeddingPipeline = Some (\<lambda>t. Resolved [3, 4]), isLoading = False, loadError = None\<rparr>)"
proof -
  have m: "magnitude [3, 4] = 5"
    by (simp add: magnitude_def sqrt_25)
  have t: "\<not> emptyText ''hi''"
    by (simp add: emptyText_def js_trim_def js_whitespace_def)
  have g: "getEmbeddingPipeline
      \<lparr>embeddingPipeline = Some (\<lambda>t. Resolved [3, 4]), isLoading = False, loadError = None\<rparr>
      \<lparr>ensureModelCacheDir = None, pipeline = Rejected (NonError ''unused'')\<rparr>
    = Some (Resolved (\<lambda>t. Resolved [3, 4]),
        \<lparr>embeddingPipeline = Some (\<lambda>t. Resolved [3, 4]), isLoading = False, loadError = None\<rparr>)"
    by (simp add: getEmbeddingPipeline_def)
  show ?thesis
    using m t g normalizeVector_unit_or_unchanged [of "[3, 4]" "''hi''"
        "\<lparr>embeddingPipeline = Some (\<lambda>t. Resolved [3, 4]), isLoading = False, loadError = None\<rparr>"
        "\<lparr>ensureModelCacheDir = None, pipeline = Rejected (NonError ''unused'')\<rparr>"
        "\<lambda>t. Resolved [3, 4]"
        "\<lparr>embeddingPipeline = Some (\<lambda>t. Resolved [3, 4]), isLoading = False, loadError = None\<rparr>"
        None]
    by auto
qed

text \<open>
  Claim C8.  \<open>cosineSimilarity\<close> throws its error exactly when the two vectors differ
  in length, and returns a number exactly when they have the same length.
\<close>

theorem cosineSimilarity_throws_iff_lengths_differ:
  "(cosineSimilarity a b = Inl (ErrorObj ''Embeddings must have same dimensions''))
     = (length a \<noteq> length b) \<and>
   (\<exists>x. cosineSimilarity a b = Inr x) = (length a = length b)"
  by (simp add: cosineSimilarity_def Let_def split: prod.splits)

theorem cosineSimilarity_throws_iff_lengths_differ_witness:
  "cosineSimilarity [1, 2, 3] [1, 2] = Inl (ErrorObj ''Embeddings must have same dimensions'') \<and>
   (\<exists>x. cosineSimilarity [1, 0, 0] [0, 1, 0] = Inr x)"
  using cosineSimilarity_throws_iff_lengths_differ [of "[1, 2, 3]" "[1, 2]"]
    cosineSimilarity_throws_iff_lengths_differ [of "[1, 0, 0]" "[0, 1, 0]"]
  by simp

section \<open>Properties of the cache\<close>

text \<open>
  Claim C9.  \<open>clearCache\<close> returns the number of rows of the current model version
  (what \<open>getCacheStats\<close> reported as \<open>totalEntries\<close> before), the rows that remain
  are exactly those of another model version, and both counters are zero afterwards: the
  statistics read right after report no entry, no hit and no miss.
\<close>

theorem clearCache_deletes_current_and_resets:
  "fst (clearCache cw) = length (filter (\<lambda>r. model_version r = MODEL_NAME) (cache_table cw)) \<and>
   fst (clearCache cw) = totalEntries (getCacheStats cw) \<and>
   cache_table (snd (clearCache cw)) = filter (\<lambda>r. model_version r \<noteq> MODEL_NAME) (cache_table cw) \<and>
   fst (clearCache cw) + length (cache_table (snd (clearCache cw))) = length (cache_table cw) \<and>
   cacheHits (snd (clearCache cw)) = 0 \<and> cacheMisses (snd (clearCache cw)) = 0 \<and>
   totalEntries (getCacheStats (snd (clearCache cw))) = 0 \<and>
   hits (getCacheStats (snd (clearCache cw))) = 0 \<and>
   misses (getCacheStats (snd (clearCache cw))) = 0"
  by (simp add: clearCache_def getCacheStats_def resetCacheStats_def Let_def sum_length_filter_compl)

theorem clearCache_deletes_current_and_resets_witness:
  "fst (clearCache
     (cacheEmbedding \<lparr>sha256_hex = (\<lambda>s. s), toFloat32 = (\<lambda>x. x)\<rparr>
       (cacheEmbedding \<lparr>sha256_hex = (\<lambda>s. s), toFloat32 = (\<lambda>x. x)\<rparr>
         (cacheEmbedding \<lparr>sha256_hex = (\<lambda>s. s), toFloat32 = (\<lambda>x. x)\<rparr>
            \<lparr>cache_table = [], cacheHits = 0, cacheMisses = 0\<rparr> ''content 1'' [1 / 2] ''t1'')
          ''content 2'' [1 / 2] ''t2'')
        ''content 3'' [1 / 2] ''t3'')) = 3"
  using clearCache_deletes_current_and_resets [of "(cacheEmbedding \<lparr>sha256_hex = (\<lambda>s. s), toFloat32 = (\<lambda>x. x)\<rparr>
       (cacheEmbedding \<lparr>sha256_hex = (\<lambda>s. s), toFloat32 = (\<lambda>x. x)\<rparr>
         (cacheEmbedding \<lparr>sha256_hex = (\<lambda>s. s), toFloat32 = (\<lambda>x. x)\<rparr>
            \<lparr>cache_table = [], cacheHits = 0, cacheMisses = 0\<rparr> ''content 1'' [1 / 2] ''t1'')
          ''content 2'' [1 / 2] ''t2'')
        ''content 3'' [1 / 2] ''t3'')"]
  by (simp add: cacheEmbedding_def hashContent_def)

lemma distinct_filter_le1:
  "distinct (map f xs) \<Longrightarrow> length (filter (\<lambda>r. f r = k \<and> P r) xs) \<le> 1"
proof (induction xs)
  case Nil
  show ?case by simp
next
  case (Cons x xs)
  show ?case
  proof (cases "f x = k")
    case True
    with Cons.prems have "filter (\<lambda>r. f r = k \<and> P r) xs = []"
      by (auto simp: filter_empty_conv image_iff)
    then show ?thesis by simp
  next
    case False
    with Cons show ?thesis by simp
  qed
qed

text \<open>
  Claim C2, as the code has it.  The primary key of the table is \<open>content_hash\<close>
  alone.  A store keeps the key unique (so there is at most one row for each pair of hash
  and model version), leaves exactly one row for the hash of the content, the new one,
  tagged with the current model version, and leaves every row with another hash as it was.
  The counters are not touched.
\<close>

theorem cacheEmbedding_upserts_by_content_hash:
  assumes "primary_key_ok (cache_table cw)"
  shows "primary_key_ok (cache_table (cacheEmbedding cenv cw c v now)) \<and>
     (\<forall>h m. length (filter (\<lambda>r. content_hash r = h \<and> model_version r = m)
                (cache_table (cacheEmbedding cenv cw c v now))) \<le> 1) \<and>
     filter (\<lambda>r. content_hash r = hashContent cenv c) (cache_table (cacheEmbedding cenv cw c v now)) =
       [\<lparr>content_hash = hashContent cenv c, embedding = map (toFloat32 cenv) v,
         model_version = MODEL_NAME, dimensions = MODEL_DIMENSIONS, created_at = now\<rparr>] \<and>
     filter (\<lambda>r. content_hash r \<noteq> hashContent cenv c) (cache_table (cacheEmbedding cenv cw c v now)) =
       filter (\<lambda>r. content_hash r \<noteq> hashContent cenv c) (cache_table cw) \<and>
     cacheHits (cacheEmbedding cenv cw c v now) = cacheHits cw \<and>
     cacheMisses (cacheEmbedding cenv cw c v now) = cacheMisses cw"
proof -
  have pk: "primary_key_ok (cache_table (cacheEmbedding cenv cw c v now))"
    using assms by (auto simp: primary_key_ok_def cacheEmbedding_def Let_def distinct_map_filter)
  then have "\<forall>h m. length (filter (\<lambda>r. content_hash r = h \<and> model_version r = m)
                (cache_table (cacheEmbedding cenv cw c v now))) \<le> 1"
    unfolding primary_key_ok_def by (intro allI distinct_filter_le1)
  moreover have "filter (\<lambda>r. content_hash r = hashContent cenv c) (cache_table (cacheEmbedding cenv cw c v now)) =
       [\<lparr>content_hash = hashContent cenv c, embedding = map (toFloat32 cenv) v,
         model_version = MODEL_NAME, dimensions = MODEL_DIMENSIONS, created_at = now\<rparr>]"
    by (simp add: cacheEmbedding_def Let_def)
  moreover have "filter (\<lambda>r. content_hash r \<noteq> hashContent cenv c) (cache_table (cacheEmbedding cenv cw c v now)) =
       filter (\<lambda>r. content_hash r \<noteq> hashContent cenv c) (cache_table cw)"
    by (simp add: cacheEmbedding_def Let_def)
  ultimately show ?thesis using pk by (simp add: cacheEmbedding_def Let_def)
qed

theorem cacheEmbedding_upserts_by_content_hash_witness:
  "cache_table (cacheEmbedding \<lparr>sha256_hex = id, toFloat32 = id\<rparr>
      \<lparr>cache_table =
         [\<lparr>content_hash = ''a'', embedding = [1], model_version = MODEL_NAME,
            dimensions = MODEL_DIMENSIONS, created_at = ''t0''\<rparr>,
          \<lparr>content_hash = ''b'', embedding = [5], model_version = ''old-model-v1'',
            dimensions = 1, created_at = ''t0''\<rparr>],
       cacheHits = 0, cacheMisses = 0\<rparr>
      ''a'' [2] ''t1'') =
     [\<lparr>content_hash = ''b'', embedding = [5], model_version = ''old-model-v1'',
        dimensions = 1, created_at = ''t0''\<rparr>,
      \<lparr>content_hash = ''a'', embedding = [2], model_version = MODEL_NAME,
        dimensions = MODEL_DIMENSIONS, created_at = ''t1''\<rparr>]"
proof -
  have pk: "primary_key_ok (cache_table
      \<lparr>cache_table =
         [\<lparr>content_hash = ''a'', embedding = [1], model_version = MODEL_NAME,
            dimensions = MODEL_DIMENSIONS, created_at = ''t0''\<rparr>,
          \<lparr>content_hash = ''b'', embedding = [5], model_version = ''old-model-v1'',
            dimensions = 1, created_at = ''t0''\<rparr>],
       cacheHits = 0, cacheMisses = 0\<rparr>)"
    by (simp add: primary_key_ok_def)
  from cacheEmbedding_upserts_by_content_hash [OF pk, of "\<lparr>sha256_hex = id, toFloat32 = id\<rparr>" "''a''" "[2]" "''t1''"]
  have "filter (\<lambda>r. content_hash r = ''a'') (cache_table (cacheEmbedding \<lparr>sha256_hex = id, toFloat32 = id\<rparr>
      \<lparr>cache_table =
         [\<lparr>content_hash = ''a'', embedding = [1], model_version = MODEL_NAME,
            dimensions = MODEL_DIMENSIONS, created_at = ''t0''\<rparr>,
          \<lparr>content_hash = ''b'', embedding = [5], model_version = ''old-model-v1'',
            dimensions = 1, created_at = ''t0''\<rparr>],
       cacheHits = 0, cacheMisses = 0\<rparr>
      ''a'' [2] ''t1'')) =
     [\<lparr>content_hash = ''a'', embedding = [2], model_version = MODEL_NAME,
        dimensions = MODEL_DIMENSIONS, created_at = ''t1''\<rparr>]"
    by (simp add: hashContent_def)
  then show ?thesis
    by (simp add: cacheEmbedding_def hashContent_def)
qed

text \<open>
  The claim as the specification words it fails: a row stored under an older model
  version for the same content is replaced by the store.
\<close>

theorem cacheEmbedding_replaces_other_version_counterexample:
  "primary_key_ok [\<lparr>content_hash = ''a'', embedding = [1], model_version = ''old-model-v1'',
        dimensions = 1, created_at = ''t0''\<rparr>] \<and>
   ''old-model-v1'' \<noteq> MODEL_NAME \<and>
   \<lparr>content_hash = ''a'', embedding = [1], model_version = ''old-model-v1'',
        dimensions = 1, created_at = ''t0''\<rparr>
     \<notin> set (cache_table (cacheEmbedding \<lparr>sha256_hex = id, toFloat32 = id\<rparr>
          \<lparr>cache_table = [\<lparr>content_hash = ''a'', embedding = [1], model_version = ''old-model-v1'',
              dimensions = 1, created_at = ''t0''\<rparr>], cacheHits = 0, cacheMisses = 0\<rparr>
          ''a'' [2] ''t1''))"
  by (simp add: primary_key_ok_def cacheEmbedding_def hashContent_def MODEL_NAME_def)

section \<open>Properties of the batch generator\<close>


















end
